theory Spec2Isabelle
  imports Main
begin

section \<open>The xCDN document model (xcdn/ast.py)\<close>

text \<open>
  The model follows \<^verbatim>\<open>xcdn/ast.py\<close>. Python objects other than Nodes are values
  of the datatype \<open>pyobj\<close>: the twelve value classes of the module (\<open>Null\<close> to
  \<open>Object\<close>) and the raw Python objects a caller can hand to a container write, which
  the module stores without converting them: \<open>None\<close>, \<open>bool\<close>, \<open>int\<close>, \<open>str\<close>, a
  \<open>list\<close>, and a \<open>dict\<close> keyed by strings. An object of any kind is a \<open>pyarg\<close>: a
  Node or a \<open>pyobj\<close>. The field \<open>value\<close> of a Node holds a \<open>pyobj\<close>: no container
  write puts a Node there, since the module wraps only what is not already a Node
  (only an explicit \<open>Node.new(node)\<close> would), and no statement below is about that case.

  Mutation in place becomes a function that returns the updated object; an exception
  becomes an \<open>Inl\<close> result carrying the exception's class and argument.
\<close>

subsection \<open>Exceptions\<close>

datatype py_error =
    KeyError string
  | IndexError string
  | TypeError string
  | AttributeError string

subsection \<open>Values, nodes and metadata\<close>

text \<open>Payloads that no operation of the module inspects are left abstract.\<close>

typedecl py_float
typedecl py_decimal
typedecl py_datetime
typedecl py_uuid

datatype Tag = Tag string

datatype pyobj =
    PyNone
  | PyBool bool
  | PyInt int
  | PyStr string
  | PyList "pyarg list"
  | PyDict "(string \<times> pyarg) list"
  | Null
  | Bool bool
  | Int' int
  | Float py_float
  | DecimalValue py_decimal
  | String string
  | Bytes string
  | DateTime py_datetime
  | Duration string
  | Uuid py_uuid
  | Array "Node list"
  | Object "(string \<times> Node) list"
and Node =
    Node (tags: "Tag list") (annotations: "Annotation list") (value': pyobj)
and Annotation =
    Annotation string "pyobj list"
and pyarg =
    IsNode Node
  | NotNode pyobj

datatype Directive = Directive string pyobj

record Document =
  prolog :: "Directive list"
  values' :: "Node list"

text \<open>
  The right-hand side of a container write is any Python object, a \<open>pyarg\<close>: the module
  tests \<^verbatim>\<open>isinstance(value, Node)\<close> and nothing else.
\<close>

text \<open>A Document key: \<^verbatim>\<open>int\<close>, \<^verbatim>\<open>str\<close>, or an object of another type (by its type name).\<close>

datatype pykey = IntKey int | StrKey string | OtherKey string

subsection \<open>Python's list and dict\<close>

text \<open>
  \<^verbatim>\<open>xs[i]\<close> on a list: a negative index counts from the end; outside
  \<open>[-len, len)\<close> it raises IndexError. The message of the error depends on whether
  the index fits the machine's index type (\<^verbatim>\<open>sys.maxsize\<close>, here that of a 64-bit
  build). A list is never longer than \<^verbatim>\<open>sys.maxsize\<close>, so an index in bounds fits.
\<close>

definition maxsize :: int where
  "maxsize = 2 ^ 63 - 1"

definition fits_index :: "int \<Rightarrow> bool" where
  "fits_index i = (- maxsize - 1 \<le> i \<and> i \<le> maxsize)"

definition cannot_fit :: string where
  "cannot_fit =
     ''cannot fit '' @ [CHR 0x27] @ ''int'' @ [CHR 0x27] @ '' into an index-sized integer''"

definition list_index :: "'a list \<Rightarrow> int \<Rightarrow> int" where
  "list_index xs i = (if i < 0 then i + int (length xs) else i)"

definition list_getitem :: "'a list \<Rightarrow> int \<Rightarrow> py_error + 'a" where
  "list_getitem xs i =
     (if 0 \<le> list_index xs i \<and> list_index xs i < int (length xs)
      then Inr (xs ! nat (list_index xs i))
      else Inl (IndexError
             (if fits_index i then ''list index out of range'' else cannot_fit)))"

definition list_setitem :: "'a list \<Rightarrow> int \<Rightarrow> 'a \<Rightarrow> py_error + 'a list" where
  "list_setitem xs i x =
     (if 0 \<le> list_index xs i \<and> list_index xs i < int (length xs)
      then Inr (xs[nat (list_index xs i) := x])
      else Inl (IndexError
             (if fits_index i then ''list assignment index out of range'' else cannot_fit)))"

text \<open>
  A dict is the list of its entries in insertion order. \<^verbatim>\<open>d[k] = v\<close> replaces the
  value of a present key where it stands and puts a new key last.
\<close>

fun dict_setitem :: "('k \<times> 'v) list \<Rightarrow> 'k \<Rightarrow> 'v \<Rightarrow> ('k \<times> 'v) list" where
  "dict_setitem [] k v = [(k, v)]"
| "dict_setitem ((k', v') # d) k v =
     (if k' = k then (k', v) # d else (k', v') # dict_setitem d k v)"

definition dict_getitem :: "(string \<times> 'v) list \<Rightarrow> string \<Rightarrow> py_error + 'v" where
  "dict_getitem d k = (case map_of d k of None \<Rightarrow> Inl (KeyError k) | Some v \<Rightarrow> Inr v)"

definition dict_contains :: "('k \<times> 'v) list \<Rightarrow> 'k \<Rightarrow> bool" where
  "dict_contains d k = (map_of d k \<noteq> None)"

subsection \<open>Node\<close>

definition Node_new :: "pyobj \<Rightarrow> Node" where
  "Node_new v = Node [] [] v"

text \<open>\<^verbatim>\<open>Node()\<close>: every field takes its default; the default of \<^verbatim>\<open>value\<close> is \<^verbatim>\<open>None\<close>.\<close>

definition Node_default :: Node where
  "Node_default = Node [] [] PyNone"

text \<open>\<^verbatim>\<open>value if isinstance(value, Node) else Node.new(value)\<close>\<close>

fun wrap :: "pyarg \<Rightarrow> Node" where
  "wrap (IsNode n) = n"
| "wrap (NotNode v) = Node_new v"

subsection \<open>Array\<close>

text \<open>The methods of \<open>Array\<close> and \<open>Object\<close> act on the instance's \<^verbatim>\<open>value\<close> field.\<close>

definition Array_getitem :: "Node list \<Rightarrow> int \<Rightarrow> py_error + Node" where
  "Array_getitem xs index = list_getitem xs index"

definition Array_setitem :: "Node list \<Rightarrow> int \<Rightarrow> pyarg \<Rightarrow> py_error + Node list" where
  "Array_setitem xs index v = list_setitem xs index (wrap v)"

definition Array_len :: "Node list \<Rightarrow> nat" where
  "Array_len xs = length xs"

definition Array_append :: "Node list \<Rightarrow> pyarg \<Rightarrow> Node list" where
  "Array_append xs v = xs @ [wrap v]"

subsection \<open>Object\<close>

definition Object_getitem :: "(string \<times> Node) list \<Rightarrow> string \<Rightarrow> py_error + Node" where
  "Object_getitem d key = dict_getitem d key"

definition Object_setitem ::
  "(string \<times> Node) list \<Rightarrow> string \<Rightarrow> pyarg \<Rightarrow> (string \<times> Node) list" where
  "Object_setitem d key v = dict_setitem d key (wrap v)"

definition Object_contains :: "(string \<times> Node) list \<Rightarrow> string \<Rightarrow> bool" where
  "Object_contains d key = dict_contains d key"

definition Object_len :: "(string \<times> Node) list \<Rightarrow> nat" where
  "Object_len d = length d"

text \<open>\<^verbatim>\<open>get\<close> returns the stored Node, or the default (any object) on KeyError.\<close>

definition Object_get :: "(string \<times> Node) list \<Rightarrow> string \<Rightarrow> pyarg \<Rightarrow> pyarg" where
  "Object_get d key dflt =
     (case dict_getitem d key of Inr n \<Rightarrow> IsNode n | Inl e \<Rightarrow> dflt)"

definition Object_keys :: "(string \<times> Node) list \<Rightarrow> string list" where
  "Object_keys d = map fst d"

definition Object_values_iter :: "(string \<times> Node) list \<Rightarrow> Node list" where
  "Object_values_iter d = map snd d"

definition Object_items :: "(string \<times> Node) list \<Rightarrow> (string \<times> Node) list" where
  "Object_items d = d"

subsection \<open>Node delegation\<close>

text \<open>\<^verbatim>\<open>type(v).__name__\<close>\<close>

fun type_name :: "pyobj \<Rightarrow> string" where
  "type_name PyNone = ''NoneType''"
| "type_name (PyBool b) = ''bool''"
| "type_name (PyInt i) = ''int''"
| "type_name (PyStr s) = ''str''"
| "type_name (PyList xs) = ''list''"
| "type_name (PyDict d) = ''dict''"
| "type_name Null = ''Null''"
| "type_name (Bool b) = ''Bool''"
| "type_name (Int' i) = ''Int''"
| "type_name (Float f) = ''Float''"
| "type_name (DecimalValue d) = ''DecimalValue''"
| "type_name (String s) = ''String''"
| "type_name (Bytes b) = ''Bytes''"
| "type_name (DateTime t) = ''DateTime''"
| "type_name (Duration r) = ''Duration''"
| "type_name (Uuid u) = ''Uuid''"
| "type_name (Array xs) = ''Array''"
| "type_name (Object d) = ''Object''"

text \<open>
  \<^verbatim>\<open>isinstance(v, Object)\<close>, \<^verbatim>\<open>isinstance(v, Array)\<close>, and \<^verbatim>\<open>isinstance(v, ValueType)\<close>:
  the twelve value classes are the subclasses of \<^verbatim>\<open>ValueType\<close>.
\<close>

fun isinstance_Object :: "pyobj \<Rightarrow> bool" where
  "isinstance_Object (Object d) = True"
| "isinstance_Object v = False"

fun isinstance_Array :: "pyobj \<Rightarrow> bool" where
  "isinstance_Array (Array xs) = True"
| "isinstance_Array v = False"

fun isinstance_ValueType :: "pyobj \<Rightarrow> bool" where
  "isinstance_ValueType PyNone = False"
| "isinstance_ValueType (PyBool b) = False"
| "isinstance_ValueType (PyInt i) = False"
| "isinstance_ValueType (PyStr s) = False"
| "isinstance_ValueType (PyList xs) = False"
| "isinstance_ValueType (PyDict d) = False"
| "isinstance_ValueType v = True"

text \<open>
  The attributes of each object, among the five names that \<open>Node\<close> probes with
  \<^verbatim>\<open>hasattr\<close>: \<open>Object\<close> defines \<^verbatim>\<open>get\<close>, \<^verbatim>\<open>keys\<close>, \<^verbatim>\<open>values_iter\<close> and \<^verbatim>\<open>items\<close>, \<open>Array\<close>
  defines \<^verbatim>\<open>append\<close>, and the other value classes define \<^verbatim>\<open>__str__\<close> only. A raw
  \<^verbatim>\<open>dict\<close> has \<^verbatim>\<open>get\<close>, \<^verbatim>\<open>keys\<close> and \<^verbatim>\<open>items\<close> (its \<^verbatim>\<open>values\<close> is not probed), a raw
  \<^verbatim>\<open>list\<close> has \<^verbatim>\<open>append\<close>; \<^verbatim>\<open>None\<close>, \<^verbatim>\<open>bool\<close>, \<^verbatim>\<open>int\<close> and \<^verbatim>\<open>str\<close> have none of the five.
\<close>

fun methods :: "pyobj \<Rightarrow> string list" where
  "methods (Object d) = [''get'', ''keys'', ''values_iter'', ''items'']"
| "methods (Array xs) = [''append'']"
| "methods (PyDict d) = [''get'', ''keys'', ''items'']"
| "methods (PyList xs) = [''append'']"
| "methods v = []"

definition hasattr :: "pyobj \<Rightarrow> string \<Rightarrow> bool" where
  "hasattr v a = (a \<in> set (methods v))"

definition no_attribute :: "pyobj \<Rightarrow> string \<Rightarrow> string" where
  "no_attribute v a =
     [CHR 0x27] @ type_name v @ [CHR 0x27] @ '' object has no attribute ''
       @ [CHR 0x27] @ a @ [CHR 0x27]"

text \<open>
  Calling a method on an object runs the method of the object's class: \<open>Object\<close> and
  \<open>Array\<close> run the module's methods, a raw \<^verbatim>\<open>dict\<close> or \<^verbatim>\<open>list\<close> runs Python's own
  (\<^verbatim>\<open>list.append\<close> stores its argument as it is, with no wrapping). On an object without
  the method the call itself raises AttributeError. A stored Node is returned as
  \<open>IsNode\<close>.
\<close>

fun call_get :: "pyobj \<Rightarrow> string \<Rightarrow> pyarg \<Rightarrow> py_error + pyarg" where
  "call_get (Object d) key dflt = Inr (Object_get d key dflt)"
| "call_get (PyDict d) key dflt = Inr (case map_of d key of Some x \<Rightarrow> x | None \<Rightarrow> dflt)"
| "call_get v key dflt = Inl (AttributeError (no_attribute v ''get''))"

fun call_keys :: "pyobj \<Rightarrow> py_error + string list" where
  "call_keys (Object d) = Inr (Object_keys d)"
| "call_keys (PyDict d) = Inr (map fst d)"
| "call_keys v = Inl (AttributeError (no_attribute v ''keys''))"

fun call_values_iter :: "pyobj \<Rightarrow> py_error + Node list" where
  "call_values_iter (Object d) = Inr (Object_values_iter d)"
| "call_values_iter v = Inl (AttributeError (no_attribute v ''values_iter''))"

fun call_items :: "pyobj \<Rightarrow> py_error + (string \<times> pyarg) list" where
  "call_items (Object d) = Inr (map (\<lambda>(k, n). (k, IsNode n)) (Object_items d))"
| "call_items (PyDict d) = Inr d"
| "call_items v = Inl (AttributeError (no_attribute v ''items''))"

fun call_append :: "pyobj \<Rightarrow> pyarg \<Rightarrow> py_error + pyobj" where
  "call_append (Array xs) v = Inr (Array (Array_append xs v))"
| "call_append (PyList xs) v = Inr (PyList (xs @ [v]))"
| "call_append w v = Inl (AttributeError (no_attribute w ''append''))"

text \<open>
  Each delegation of \<open>Node\<close> tests \<^verbatim>\<open>hasattr(self.value, name)\<close> and then calls the method
  on the value, whatever its class; otherwise it raises AttributeError with the name
  of the value's type.
\<close>

definition Node_get :: "Node \<Rightarrow> string \<Rightarrow> pyarg \<Rightarrow> py_error + pyarg" where
  "Node_get n key dflt =
     (if hasattr (value' n) ''get''
      then call_get (value' n) key dflt
      else Inl (AttributeError (no_attribute (value' n) ''get'')))"

definition Node_keys :: "Node \<Rightarrow> py_error + string list" where
  "Node_keys n =
     (if hasattr (value' n) ''keys''
      then call_keys (value' n)
      else Inl (AttributeError (no_attribute (value' n) ''keys'')))"

definition Node_values_iter :: "Node \<Rightarrow> py_error + Node list" where
  "Node_values_iter n =
     (if hasattr (value' n) ''values_iter''
      then call_values_iter (value' n)
      else Inl (AttributeError (no_attribute (value' n) ''values_iter'')))"

definition Node_items :: "Node \<Rightarrow> py_error + (string \<times> pyarg) list" where
  "Node_items n =
     (if hasattr (value' n) ''items''
      then call_items (value' n)
      else Inl (AttributeError (no_attribute (value' n) ''items'')))"

text \<open>\<^verbatim>\<open>append\<close> mutates the object held by the Node; the result is the Node afterwards.\<close>

definition Node_append :: "Node \<Rightarrow> pyarg \<Rightarrow> py_error + Node" where
  "Node_append n v =
     (if hasattr (value' n) ''append''
      then (case call_append (value' n) v of
              Inl e \<Rightarrow> Inl e
            | Inr w \<Rightarrow> Inr (Node (tags n) (annotations n) w))
      else Inl (AttributeError (no_attribute (value' n) ''append'')))"

subsection \<open>Document\<close>

definition Document_new :: Document where
  "Document_new = \<lparr>prolog = [], values' = []\<rparr>"

definition cannot_access :: "string \<Rightarrow> string" where
  "cannot_access key =
     ''Cannot access key '' @ [CHR 0x27] @ key @ [CHR 0x27] @ '' on document''"

definition bad_index_type :: "string \<Rightarrow> string" where
  "bad_index_type t = ''Document indices must be integers or strings, not '' @ t"

fun Document_getitem :: "Document \<Rightarrow> pykey \<Rightarrow> py_error + Node" where
  "Document_getitem doc (IntKey i) = list_getitem (values' doc) i"
| "Document_getitem doc (StrKey key) =
     (case values' doc of
        [] \<Rightarrow> Inl (KeyError (cannot_access key))
      | n # rest \<Rightarrow>
          (case value' n of
             Object d \<Rightarrow> Object_getitem d key
           | _ \<Rightarrow> Inl (KeyError (cannot_access key))))"
| "Document_getitem doc (OtherKey t) = Inl (TypeError (bad_index_type t))"

text \<open>
  The string branch of \<^verbatim>\<open>__setitem__\<close>: after the append on an empty \<^verbatim>\<open>values\<close> the
  list has a first element; \<^verbatim>\<open>values[0]\<close> on an empty list would raise IndexError.
\<close>

definition set_on_first :: "Document \<Rightarrow> Node list \<Rightarrow> string \<Rightarrow> pyarg \<Rightarrow> py_error + Document" where
  "set_on_first doc vs key v =
     (case vs of
        [] \<Rightarrow> Inl (IndexError ''list index out of range'')
      | n # rest \<Rightarrow>
          (case value' n of
             Object d \<Rightarrow>
               Inr (doc\<lparr>values' :=
                      Node (tags n) (annotations n) (Object (Object_setitem d key v)) # rest\<rparr>)
           | _ \<Rightarrow> Inl (TypeError ''First document value is not an Object'')))"

fun Document_setitem :: "Document \<Rightarrow> pykey \<Rightarrow> pyarg \<Rightarrow> py_error + Document" where
  "Document_setitem doc (IntKey i) v =
     (case list_setitem (values' doc) i (wrap v) of
        Inl e \<Rightarrow> Inl e
      | Inr vs \<Rightarrow> Inr (doc\<lparr>values' := vs\<rparr>))"
| "Document_setitem doc (StrKey key) v =
     (if values' doc = []
      then set_on_first doc (values' doc @ [Node_new (Object [])]) key v
      else set_on_first doc (values' doc) key v)"
| "Document_setitem doc (OtherKey t) v = Inl (TypeError (bad_index_type t))"

definition Document_contains :: "Document \<Rightarrow> string \<Rightarrow> bool" where
  "Document_contains doc key =
     (case values' doc of
        [] \<Rightarrow> False
      | n # rest \<Rightarrow>
          (case value' n of
             Object d \<Rightarrow> Object_contains d key
           | _ \<Rightarrow> False))"

section \<open>Properties\<close>

subsection \<open>Facts about the dict model\<close>

lemma dict_setitem_keys_present:
  "map_of d k \<noteq> None \<Longrightarrow> map fst (dict_setitem d k v) = map fst d"
  by (induction d) (auto split: if_splits)

lemma dict_setitem_keys_absent:
  "map_of d k = None \<Longrightarrow> map fst (dict_setitem d k v) = map fst d @ [k]"
  by (induction d) (auto split: if_splits)

lemma map_of_dict_setitem:
  "map_of (dict_setitem d k v) = (map_of d)(k \<mapsto> v)"
  by (induction d) (auto simp: fun_eq_iff)

lemma map_of_None_iff: "map_of d k = None \<longleftrightarrow> k \<notin> set (map fst d)"
  by (simp add: map_of_eq_None_iff)

lemma fold_setitem_keys:
  "distinct (map fst kvs) \<Longrightarrow> set (map fst kvs) \<inter> set (map fst d) = {} \<Longrightarrow>
   map fst (fold (\<lambda>(k, v) d. Object_setitem d k v) kvs d) = map fst d @ map fst kvs"
proof (induction kvs arbitrary: d)
  case Nil
  then show ?case by simp
next
  case (Cons kv kvs)
  obtain k v where kv: "kv = (k, v)" by (cases kv)
  from Cons.prems kv have absent: "map_of d k = None"
    by (auto simp: map_of_None_iff)
  have keys1: "map fst (Object_setitem d k v) = map fst d @ [k]"
    unfolding Object_setitem_def using absent by (rule dict_setitem_keys_absent)
  from Cons.prems kv have "distinct (map fst kvs)"
    and "set (map fst kvs) \<inter> set (map fst (Object_setitem d k v)) = {}"
    by (auto simp: keys1)
  then have "map fst (fold (\<lambda>(k, v) d. Object_setitem d k v) kvs (Object_setitem d k v))
      = map fst (Object_setitem d k v) @ map fst kvs"
    by (rule Cons.IH)
  then show ?case by (simp add: kv keys1)
qed

subsection \<open>Insertion order of Object keys\<close>

text \<open>
  Claim C1. An Object built from the empty one by set calls with distinct keys lists
  its keys in call order. Setting a key that is present keeps the list of keys as it
  is (so the key keeps its position) and binds the key to the new Node; setting a key
  that is absent puts it last.
\<close>

theorem Object_setitem_order:
  "(distinct (map fst kvs) \<longrightarrow>
      Object_keys (fold (\<lambda>(k, v) d. Object_setitem d k v) kvs []) = map fst kvs)
   \<and> (Object_contains d1 k1 \<longrightarrow>
        Object_keys (Object_setitem d1 k1 v1) = Object_keys d1
        \<and> Object_getitem (Object_setitem d1 k1 v1) k1 = Inr (wrap v1))
   \<and> (\<not> Object_contains d2 k2 \<longrightarrow>
        Object_keys (Object_setitem d2 k2 v2) = Object_keys d2 @ [k2]
        \<and> Object_getitem (Object_setitem d2 k2 v2) k2 = Inr (wrap v2))"
proof (intro conjI impI)
  assume "distinct (map fst kvs)"
  then show "Object_keys (fold (\<lambda>(k, v) d. Object_setitem d k v) kvs []) = map fst kvs"
    using fold_setitem_keys [of kvs "[]"] by (simp add: Object_keys_def)
next
  assume "Object_contains d1 k1"
  then show "Object_keys (Object_setitem d1 k1 v1) = Object_keys d1"
    by (simp add: Object_contains_def dict_contains_def Object_keys_def Object_setitem_def
        dict_setitem_keys_present)
next
  show "Object_getitem (Object_setitem d1 k1 v1) k1 = Inr (wrap v1)"
    by (simp add: Object_getitem_def dict_getitem_def Object_setitem_def map_of_dict_setitem)
next
  assume "\<not> Object_contains d2 k2"
  then show "Object_keys (Object_setitem d2 k2 v2) = Object_keys d2 @ [k2]"
    by (simp add: Object_contains_def dict_contains_def Object_keys_def Object_setitem_def
        dict_setitem_keys_absent)
next
  show "Object_getitem (Object_setitem d2 k2 v2) k2 = Inr (wrap v2)"
    by (simp add: Object_getitem_def dict_getitem_def Object_setitem_def map_of_dict_setitem)
qed

theorem Object_setitem_order_witness:
  "distinct (map fst [(''a'', NotNode (PyInt 1)), (''b'', NotNode (PyInt 2)), (''c'', IsNode (Node_new Null))])
   \<and> Object_keys (fold (\<lambda>(k, v) d. Object_setitem d k v)
        [(''a'', NotNode (PyInt 1)), (''b'', NotNode (PyInt 2)), (''c'', IsNode (Node_new Null))] [])
      = [''a'', ''b'', ''c'']
   \<and> Object_contains [(''a'', Node_new (Int' 1)), (''b'', Node_new (Int' 2))] ''a''
   \<and> Object_keys (Object_setitem [(''a'', Node_new (Int' 1)), (''b'', Node_new (Int' 2))] ''a'' (NotNode (Int' 7)))
      = [''a'', ''b'']
   \<and> Object_getitem (Object_setitem [(''a'', Node_new (Int' 1)), (''b'', Node_new (Int' 2))] ''a'' (NotNode (Int' 7))) ''a''
      = Inr (Node_new (Int' 7))
   \<and> \<not> Object_contains [(''a'', Node_new (Int' 1)), (''b'', Node_new (Int' 2))] ''c''
   \<and> Object_keys (Object_setitem [(''a'', Node_new (Int' 1)), (''b'', Node_new (Int' 2))] ''c'' (NotNode (Int' 7)))
      = [''a'', ''b'', ''c'']"
  using Object_setitem_order [of
      "[(''a'', NotNode (PyInt 1)), (''b'', NotNode (PyInt 2)), (''c'', IsNode (Node_new Null))]"
      "[(''a'', Node_new (Int' 1)), (''b'', Node_new (Int' 2))]" "''a''" "NotNode (Int' 7)"
      "[(''a'', Node_new (Int' 1)), (''b'', Node_new (Int' 2))]" "''c''" "NotNode (Int' 7)"]
  by (simp add: Object_contains_def dict_contains_def Object_keys_def)

subsection \<open>Document: reading, writing and testing a string key\<close>

text \<open>
  Claim C2. Reading \<open>document[k]\<close> with a string key returns a Node \<open>x\<close> exactly when
  \<open>values\<close> is non-empty, the value of its first Node is an Object and that Object
  maps \<open>k\<close> to \<open>x\<close>; in every other case, and only then, the read raises KeyError
  (the spec's KeyNotFound).
\<close>

theorem Document_getitem_str:
  "(Document_getitem doc (StrKey k) = Inr x \<longleftrightarrow>
      (\<exists>d. values' doc \<noteq> [] \<and> value' (hd (values' doc)) = Object d \<and> map_of d k = Some x))
   \<and> ((\<exists>m. Document_getitem doc (StrKey k) = Inl (KeyError m)) \<longleftrightarrow>
      \<not> (\<exists>d y. values' doc \<noteq> [] \<and> value' (hd (values' doc)) = Object d \<and> map_of d k = Some y))"
proof (cases "values' doc")
  case Nil
  then show ?thesis by simp
next
  case (Cons n rest)
  show ?thesis
  proof (cases "value' n")
    case (Object d)
    with Cons show ?thesis
      by (cases "map_of d k") (simp_all add: Object_getitem_def dict_getitem_def)
  qed (use Cons in simp_all)
qed

theorem Document_getitem_str_witness:
  "Document_getitem \<lparr>prolog = [], values' = [Node_new (Object [(''a'', Node_new (Int' 1))])]\<rparr>
      (StrKey ''a'') = Inr (Node_new (Int' 1))
   \<and> Document_getitem \<lparr>prolog = [], values' = [Node_new (Object [(''a'', Node_new (Int' 1))])]\<rparr>
      (StrKey ''b'') = Inl (KeyError ''b'')
   \<and> (\<exists>m. Document_getitem \<lparr>prolog = [], values' = [Node_new (Int' 1)]\<rparr> (StrKey ''a'')
        = Inl (KeyError m))
   \<and> (\<exists>m. Document_getitem Document_new (StrKey ''a'') = Inl (KeyError m))"
  using
    Document_getitem_str [of
      "\<lparr>prolog = [], values' = [Node_new (Object [(''a'', Node_new (Int' 1))])]\<rparr>"
      "''a''" "Node_new (Int' 1)"]
    Document_getitem_str [of "\<lparr>prolog = [], values' = [Node_new (Int' 1)]\<rparr>" "''a''"]
    Document_getitem_str [of Document_new "''a''"]
  by (simp add: Node_new_def Document_new_def Object_getitem_def dict_getitem_def)

text \<open>
  Claim C8. The membership test \<open>k in document\<close> is true exactly when \<open>values\<close> is
  non-empty, the value of its first Node is an Object and \<open>k\<close> is one of its keys. The
  test is a total function into \<open>bool\<close>: it has no failing result.
\<close>

theorem Document_contains_iff:
  "Document_contains doc k \<longleftrightarrow>
     (\<exists>d. values' doc \<noteq> [] \<and> value' (hd (values' doc)) = Object d \<and> k \<in> fst ` set d)"
proof (cases "values' doc")
  case Nil
  then show ?thesis by (simp add: Document_contains_def)
next
  case (Cons n rest)
  show ?thesis
  proof (cases "value' n")
    case (Object d)
    with Cons show ?thesis
      by (simp add: Document_contains_def Object_contains_def dict_contains_def
          map_of_eq_None_iff)
  qed (use Cons in \<open>simp_all add: Document_contains_def\<close>)
qed

theorem Document_contains_iff_witness:
  "Document_contains \<lparr>prolog = [], values' = [Node_new (Object [(''a'', Node_new (Int' 1))])]\<rparr> ''a''
   \<and> \<not> Document_contains \<lparr>prolog = [], values' = [Node_new (Object [(''a'', Node_new (Int' 1))])]\<rparr> ''b''
   \<and> \<not> Document_contains \<lparr>prolog = [], values' = [Node_new (Int' 1)]\<rparr> ''a''
   \<and> \<not> Document_contains Document_new ''a''"
  using
    Document_contains_iff [of
      "\<lparr>prolog = [], values' = [Node_new (Object [(''a'', Node_new (Int' 1))])]\<rparr>" "''a''"]
    Document_contains_iff [of
      "\<lparr>prolog = [], values' = [Node_new (Object [(''a'', Node_new (Int' 1))])]\<rparr>" "''b''"]
    Document_contains_iff [of "\<lparr>prolog = [], values' = [Node_new (Int' 1)]\<rparr>" "''a''"]
    Document_contains_iff [of Document_new "''a''"]
  by (simp add: Node_new_def Document_new_def)

text \<open>
  Claim C3. Writing \<open>document[k] = v\<close> with a string key: on empty \<open>values\<close> a Node
  around an empty Object is appended and \<open>k\<close> is set on it, after which \<open>document[k]\<close>
  is the Node stored for \<open>v\<close> and \<open>document[0]\<close> is the Node around an Object with that
  one entry; when the first value is an Object, \<open>k\<close> is set on it; when the first value
  is not an Object the write raises TypeError (the spec's TypeMismatch).
\<close>

theorem Document_setitem_str:
  "(values' doc1 = [] \<longrightarrow>
      Document_setitem doc1 (StrKey k) v
        = Inr (doc1\<lparr>values' := [Node_new (Object [(k, wrap v)])]\<rparr>)
      \<and> Document_getitem (doc1\<lparr>values' := [Node_new (Object [(k, wrap v)])]\<rparr>) (StrKey k)
        = Inr (wrap v)
      \<and> Document_getitem (doc1\<lparr>values' := [Node_new (Object [(k, wrap v)])]\<rparr>) (IntKey 0)
        = Inr (Node_new (Object [(k, wrap v)])))
   \<and> (values' doc2 = n2 # rest2 \<and> value' n2 = Object d \<longrightarrow>
      Document_setitem doc2 (StrKey k) v
        = Inr (doc2\<lparr>values' :=
                 Node (tags n2) (annotations n2) (Object (Object_setitem d k v)) # rest2\<rparr>)
      \<and> Document_getitem
          (doc2\<lparr>values' :=
                 Node (tags n2) (annotations n2) (Object (Object_setitem d k v)) # rest2\<rparr>)
          (StrKey k) = Inr (wrap v))
   \<and> (values' doc3 = n3 # rest3 \<and> (\<forall>d. value' n3 \<noteq> Object d) \<longrightarrow>
      Document_setitem doc3 (StrKey k) v
        = Inl (TypeError ''First document value is not an Object''))"
proof (intro conjI impI)
  assume "values' doc1 = []"
  then show "Document_setitem doc1 (StrKey k) v
      = Inr (doc1\<lparr>values' := [Node_new (Object [(k, wrap v)])]\<rparr>)"
    by (simp add: set_on_first_def Node_new_def Object_setitem_def)
next
  show "Document_getitem (doc1\<lparr>values' := [Node_new (Object [(k, wrap v)])]\<rparr>) (StrKey k)
      = Inr (wrap v)"
    by (simp add: Node_new_def Object_getitem_def dict_getitem_def)
next
  show "Document_getitem (doc1\<lparr>values' := [Node_new (Object [(k, wrap v)])]\<rparr>) (IntKey 0)
      = Inr (Node_new (Object [(k, wrap v)]))"
    by (simp add: list_getitem_def list_index_def)
next
  assume "values' doc2 = n2 # rest2 \<and> value' n2 = Object d"
  then show "Document_setitem doc2 (StrKey k) v
      = Inr (doc2\<lparr>values' :=
               Node (tags n2) (annotations n2) (Object (Object_setitem d k v)) # rest2\<rparr>)"
    by (simp add: set_on_first_def)
next
  show "Document_getitem
      (doc2\<lparr>values' :=
             Node (tags n2) (annotations n2) (Object (Object_setitem d k v)) # rest2\<rparr>)
      (StrKey k) = Inr (wrap v)"
    by (simp add: Object_getitem_def dict_getitem_def Object_setitem_def map_of_dict_setitem)
next
  assume a: "values' doc3 = n3 # rest3 \<and> (\<forall>d. value' n3 \<noteq> Object d)"
  then show "Document_setitem doc3 (StrKey k) v
      = Inl (TypeError ''First document value is not an Object'')"
    by (cases "value' n3") (simp_all add: set_on_first_def)
qed

theorem Document_setitem_str_witness:
  "values' Document_new = []
   \<and> Document_setitem Document_new (StrKey ''a'') (NotNode (PyInt 1))
       = Inr \<lparr>prolog = [], values' = [Node_new (Object [(''a'', Node_new (PyInt 1))])]\<rparr>
   \<and> Document_getitem
        \<lparr>prolog = [], values' = [Node_new (Object [(''a'', Node_new (PyInt 1))])]\<rparr>
        (StrKey ''a'') = Inr (Node_new (PyInt 1))
   \<and> value' (Node_new (PyInt 1)) = PyInt 1
   \<and> Document_setitem
        \<lparr>prolog = [], values' = [Node_new (Object [(''b'', Node_new Null)])]\<rparr>
        (StrKey ''a'') (NotNode (PyInt 1))
       = Inr \<lparr>prolog = [], values' =
               [Node_new (Object [(''b'', Node_new Null), (''a'', Node_new (PyInt 1))])]\<rparr>
   \<and> Document_setitem \<lparr>prolog = [], values' = [Node_new (Int' 3)]\<rparr>
        (StrKey ''a'') (NotNode (PyInt 1))
       = Inl (TypeError ''First document value is not an Object'')"
  using Document_setitem_str [of Document_new "''a''" "NotNode (PyInt 1)"
      "\<lparr>prolog = [], values' = [Node_new (Object [(''b'', Node_new Null)])]\<rparr>"
      "Node_new (Object [(''b'', Node_new Null)])" "[]" "[(''b'', Node_new Null)]"
      "\<lparr>prolog = [], values' = [Node_new (Int' 3)]\<rparr>" "Node_new (Int' 3)" "[]"]
  by (simp add: Node_new_def Document_new_def Object_setitem_def)

subsection \<open>Array: bounds\<close>

text \<open>
  Claim C4 says that every index outside \<open>[0, len)\<close> is refused. The Array indexes its
  Python list directly, so a negative index down to \<open>-len\<close> counts from the end: on
  an Array of two Nodes, index \<open>-1\<close> reads and writes the last one.
\<close>

theorem Array_negative_index_counterexample:
  "\<not> (0 \<le> (- 1 :: int))
   \<and> Array_getitem [Node_new Null, Node_new (Int' 7)] (- 1) = Inr (Node_new (Int' 7))
   \<and> Array_setitem [Node_new Null, Node_new (Int' 7)] (- 1) (NotNode (Int' 5))
       = Inr [Node_new Null, Node_new (Int' 5)]"
  by (simp add: Array_getitem_def Array_setitem_def list_getitem_def list_setitem_def
      list_index_def)

text \<open>
  Claim C4, amended. For an Array of length \<open>len\<close>, get and set raise IndexError (the
  spec's IndexOutOfRange, whatever its message) at every index outside \<open>[-len, len)\<close>,
  in particular at \<open>len\<close>; an index in \<open>[0, len)\<close> designates that position, and an
  index in \<open>[-len, 0)\<close> designates position \<open>len + i\<close>.
\<close>

theorem Array_index_bounds:
  "((i < - int (length xs) \<or> int (length xs) \<le> i) \<longrightarrow>
      (\<exists>m. Array_getitem xs i = Inl (IndexError m))
      \<and> (\<exists>m. Array_setitem xs i v = Inl (IndexError m)))
   \<and> (\<exists>m. Array_getitem xs (int (length xs)) = Inl (IndexError m))
   \<and> (0 \<le> j \<and> j < int (length ys) \<longrightarrow>
      Array_getitem ys j = Inr (ys ! nat j)
      \<and> Array_setitem ys j v = Inr (ys[nat j := wrap v]))
   \<and> (- int (length zs) \<le> k \<and> k < 0 \<longrightarrow>
      Array_getitem zs k = Inr (zs ! nat (int (length zs) + k))
      \<and> Array_setitem zs k v = Inr (zs[nat (int (length zs) + k) := wrap v]))"
  by (simp add: Array_getitem_def Array_setitem_def list_getitem_def list_setitem_def
      list_index_def add.commute)

theorem Array_index_bounds_witness:
  "Array_getitem [Node_new Null, Node_new (Int' 7)] 2 = Inl (IndexError ''list index out of range'')
   \<and> Array_getitem [Node_new Null, Node_new (Int' 7)] (- 3) = Inl (IndexError ''list index out of range'')
   \<and> Array_setitem [Node_new Null, Node_new (Int' 7)] (- 3) (NotNode (Int' 5))
       = Inl (IndexError ''list assignment index out of range'')
   \<and> Array_getitem [Node_new Null, Node_new (Int' 7)] (2 ^ 64) = Inl (IndexError cannot_fit)
   \<and> Array_getitem [Node_new Null, Node_new (Int' 7)] 1 = Inr (Node_new (Int' 7))
   \<and> Array_getitem [Node_new Null, Node_new (Int' 7)] (- 2) = Inr (Node_new Null)"
  using Array_index_bounds [of "- 3" "[Node_new Null, Node_new (Int' 7)]" "NotNode (Int' 5)"
      1 "[Node_new Null, Node_new (Int' 7)]" "[Node_new Null, Node_new (Int' 7)]" "- 2"]
    Array_index_bounds [of "2 ^ 64" "[Node_new Null, Node_new (Int' 7)]" "NotNode (Int' 5)"
      1 "[Node_new Null, Node_new (Int' 7)]" "[Node_new Null, Node_new (Int' 7)]" "- 2"]
  by (simp add: Array_getitem_def Array_setitem_def list_getitem_def list_setitem_def
      list_index_def fits_index_def maxsize_def)

subsection \<open>Array: wrapping on write\<close>

text \<open>
  Claim C5 says that writing the bare \<open>5\<close> equals writing \<open>Node.new(Int(5))\<close>. The
  write wraps what it is given with \<open>Node.new\<close> and converts nothing: the bare Python
  integer is stored as the Node's value, which is not the \<open>Int\<close> object (an instance of
  a dataclass is equal only to instances of its own class).
\<close>

theorem Array_setitem_raw_counterexample:
  "Array_setitem [Node_new Null] 0 (NotNode (PyInt 5)) = Inr [Node_new (PyInt 5)]
   \<and> Array_setitem [Node_new Null] 0 (IsNode (Node_new (Int' 5))) = Inr [Node_new (Int' 5)]
   \<and> Array_setitem [Node_new Null] 0 (NotNode (PyInt 5))
       \<noteq> Array_setitem [Node_new Null] 0 (IsNode (Node_new (Int' 5)))"
  by (simp add: Array_setitem_def list_setitem_def list_index_def Node_new_def)

text \<open>
  Claim C5, amended. For every object \<open>v\<close> that is not a Node, writing \<open>v\<close> at index 0
  and writing \<open>Node.new(v)\<close> at index 0 give the same result, and on an Array of length
  at least 1 that result is the Array with \<open>Node.new(v)\<close> in front; so writing \<open>Int(5)\<close>
  equals writing \<open>Node.new(Int(5))\<close>.
\<close>

theorem Array_setitem_wrap:
  "Array_setitem xs 0 (NotNode v) = Array_setitem xs 0 (IsNode (Node_new v))
   \<and> Array_setitem (x # xs) 0 (NotNode v) = Inr (Node_new v # xs)"
  by (simp add: Array_setitem_def list_setitem_def list_index_def)

theorem Array_setitem_wrap_witness:
  "Array_setitem [Node_new Null] 0 (NotNode (Int' 5))
     = Array_setitem [Node_new Null] 0 (IsNode (Node_new (Int' 5)))
   \<and> Array_setitem [Node_new Null] 0 (NotNode (Int' 5)) = Inr [Node_new (Int' 5)]"
  using Array_setitem_wrap [of "[Node_new Null]" "Int' 5"]
    Array_setitem_wrap [of "[]" "Int' 5" "Node_new Null"]
  by simp

subsection \<open>Node: default construction\<close>

text \<open>
  Claim C6 says that the value of \<open>Node()\<close> is the Null variant. The declared default
  of the field is Python's \<open>None\<close>, which is not an instance of the class \<open>Null\<close>.
\<close>

theorem Node_default_counterexample: "value' Node_default \<noteq> Null"
  by (simp add: Node_default_def)

text \<open>
  Claim C6, amended. \<open>Node()\<close> has no tags, no annotations, and the value \<open>None\<close>.
\<close>

theorem Node_default_fields:
  "tags Node_default = [] \<and> annotations Node_default = [] \<and> value' Node_default = PyNone"
  by (simp add: Node_default_def)

subsection \<open>Node: delegation by attribute\<close>

text \<open>
  Claim C7 says that the delegations succeed exactly when the Node's value is an Object
  (an Array for \<open>append\<close>). The guard is \<^verbatim>\<open>hasattr\<close> on whatever the Node holds, and a
  container write stores any object it is given: appending a raw \<^verbatim>\<open>dict\<close> to an Array
  makes a Node around it, on which \<open>get\<close>, \<open>keys\<close> and \<open>items\<close> succeed although the
  value is no Object; on a Node around a raw \<^verbatim>\<open>list\<close>, \<open>append\<close> succeeds although the
  value is no Array.
\<close>

theorem Node_delegation_counterexample:
  "Array_append [] (NotNode (PyDict [(''a'', NotNode (PyInt 1))]))
     = [Node_new (PyDict [(''a'', NotNode (PyInt 1))])]
   \<and> \<not> isinstance_Object (PyDict [(''a'', NotNode (PyInt 1))])
   \<and> Node_get (Node_new (PyDict [(''a'', NotNode (PyInt 1))])) ''a'' (NotNode PyNone)
     = Inr (NotNode (PyInt 1))
   \<and> Node_keys (Node_new (PyDict [(''a'', NotNode (PyInt 1))])) = Inr [''a'']
   \<and> Node_items (Node_new (PyDict [(''a'', NotNode (PyInt 1))]))
     = Inr [(''a'', NotNode (PyInt 1))]
   \<and> \<not> isinstance_Array (PyList [])
   \<and> Node_append (Node_new (PyList [])) (NotNode (PyInt 1))
     = Inr (Node_new (PyList [NotNode (PyInt 1)]))"
  by (simp add: Array_append_def Node_new_def Node_get_def Node_keys_def Node_items_def
      Node_append_def hasattr_def)

text \<open>
  Claim C7, amended. For every Node whose value is one of the twelve value classes:
  on an Object, \<open>get\<close>, \<open>keys\<close>, \<open>values_iter\<close> (the module's name for the spec's
  \<open>values\<close>) and \<open>items\<close> return what the Object's method returns; on an Array,
  \<open>append\<close> appends to it as the Array's method does; on every other value class each
  of the four, and on every value class but Array \<open>append\<close>, raises AttributeError (the
  spec's UnsupportedOperation) with a message that starts with the name of the value's
  class.
\<close>

theorem Node_delegation:
  "(value' n1 = Object d \<longrightarrow>
      Node_get n1 key dflt = Inr (Object_get d key dflt)
      \<and> Node_keys n1 = Inr (Object_keys d)
      \<and> Node_values_iter n1 = Inr (Object_values_iter d)
      \<and> Node_items n1 = Inr (map (\<lambda>(k, n). (k, IsNode n)) (Object_items d)))
   \<and> (value' n2 = Array xs \<longrightarrow>
      Node_append n2 v = Inr (Node (tags n2) (annotations n2) (Array (Array_append xs v))))
   \<and> (isinstance_ValueType (value' n3) \<and> \<not> isinstance_Object (value' n3) \<longrightarrow>
      Node_get n3 key dflt = Inl (AttributeError (no_attribute (value' n3) ''get''))
      \<and> Node_keys n3 = Inl (AttributeError (no_attribute (value' n3) ''keys''))
      \<and> Node_values_iter n3 = Inl (AttributeError (no_attribute (value' n3) ''values_iter''))
      \<and> Node_items n3 = Inl (AttributeError (no_attribute (value' n3) ''items'')))
   \<and> (isinstance_ValueType (value' n4) \<and> \<not> isinstance_Array (value' n4) \<longrightarrow>
      Node_append n4 v = Inl (AttributeError (no_attribute (value' n4) ''append'')))"
proof (intro conjI impI)
  assume "isinstance_ValueType (value' n3) \<and> \<not> isinstance_Object (value' n3)"
  then show "Node_get n3 key dflt = Inl (AttributeError (no_attribute (value' n3) ''get''))"
    and "Node_keys n3 = Inl (AttributeError (no_attribute (value' n3) ''keys''))"
    and "Node_values_iter n3
      = Inl (AttributeError (no_attribute (value' n3) ''values_iter''))"
    and "Node_items n3 = Inl (AttributeError (no_attribute (value' n3) ''items''))"
    by (cases "value' n3";
        simp add: Node_get_def Node_keys_def Node_values_iter_def Node_items_def hasattr_def)+
next
  assume "isinstance_ValueType (value' n4) \<and> \<not> isinstance_Array (value' n4)"
  then show "Node_append n4 v = Inl (AttributeError (no_attribute (value' n4) ''append''))"
    by (cases "value' n4") (simp_all add: Node_append_def hasattr_def)
qed (simp_all add: Node_get_def Node_keys_def Node_values_iter_def Node_items_def
    Node_append_def hasattr_def)

theorem Node_delegation_witness:
  "Node_get (Node_new (Object [(''a'', Node_new (Int' 1))])) ''a'' (NotNode PyNone)
     = Inr (IsNode (Node_new (Int' 1)))
   \<and> Node_keys (Node_new (Object [(''a'', Node_new (Int' 1))])) = Inr [''a'']
   \<and> Node_values_iter (Node_new (Object [(''a'', Node_new (Int' 1))]))
     = Inr [Node_new (Int' 1)]
   \<and> Node_append (Node_new (Array [])) (NotNode (Int' 1))
     = Inr (Node_new (Array [Node_new (Int' 1)]))
   \<and> Node_get (Node_new (Int' 5)) ''a'' (NotNode PyNone)
     = Inl (AttributeError (CHR 0x27 # ''Int'' @ CHR 0x27 # '' object has no attribute ''
         @ CHR 0x27 # ''get'' @ [CHR 0x27]))
   \<and> Node_append (Node_new (Object [])) (NotNode (Int' 1))
     = Inl (AttributeError (no_attribute (Object []) ''append''))"
  using Node_delegation [of "Node_new (Object [(''a'', Node_new (Int' 1))])"
      "[(''a'', Node_new (Int' 1))]" "''a''" "NotNode PyNone"
      "Node_new (Array [])" "[]" "NotNode (Int' 1)" "Node_new (Int' 5)" "Node_new (Object [])"]
  by (simp add: Node_new_def no_attribute_def Object_get_def dict_getitem_def Object_keys_def
      Object_values_iter_def Array_append_def)

subsection \<open>Container writes: a Node is stored as given\<close>

lemma list_setitem_getitem:
  "list_setitem xs i x = Inr ys \<Longrightarrow> list_getitem ys i = Inr x"
  by (auto simp: list_setitem_def list_getitem_def list_index_def split: if_splits)

text \<open>
  Claim C9. A container write that is given a Node stores that Node itself, with its
  tags, annotations and value: after a successful Array write at \<open>i\<close> the Array holds it
  at \<open>i\<close>, an append puts it last, an Object write binds the key to it, and after a
  successful Document write at integer \<open>j\<close> the Document holds it at \<open>j\<close>. Only an
  argument that is not a Node is wrapped, by \<open>Node.new\<close>.
\<close>

theorem Node_stored_as_given:
  "(Array_setitem xs i (IsNode n) = Inr ys \<longrightarrow> Array_getitem ys i = Inr n)
   \<and> Array_append xs (IsNode n) = xs @ [n]
   \<and> Object_getitem (Object_setitem d k (IsNode n)) k = Inr n
   \<and> (Document_setitem doc (IntKey j) (IsNode n) = Inr doc' \<longrightarrow>
        Document_getitem doc' (IntKey j) = Inr n)
   \<and> wrap (IsNode n) = n
   \<and> wrap (NotNode v) = Node_new v"
proof (intro conjI impI)
  assume "Array_setitem xs i (IsNode n) = Inr ys"
  then show "Array_getitem ys i = Inr n"
    by (simp add: Array_setitem_def Array_getitem_def list_setitem_getitem)
next
  show "Array_append xs (IsNode n) = xs @ [n]"
    by (simp add: Array_append_def)
next
  show "Object_getitem (Object_setitem d k (IsNode n)) k = Inr n"
    by (simp add: Object_getitem_def dict_getitem_def Object_setitem_def map_of_dict_setitem)
next
  assume "Document_setitem doc (IntKey j) (IsNode n) = Inr doc'"
  then show "Document_getitem doc' (IntKey j) = Inr n"
    by (auto split: sum.splits dest: list_setitem_getitem)
qed simp_all

theorem Node_stored_as_given_witness:
  "Array_setitem [Node_new Null] 0 (IsNode (Node [Tag ''t''] [] (Int' 5)))
     = Inr [Node [Tag ''t''] [] (Int' 5)]
   \<and> Array_getitem [Node [Tag ''t''] [] (Int' 5)] 0 = Inr (Node [Tag ''t''] [] (Int' 5))
   \<and> Document_setitem \<lparr>prolog = [], values' = [Node_new Null]\<rparr> (IntKey 0)
        (IsNode (Node [Tag ''t''] [] (Int' 5)))
     = Inr \<lparr>prolog = [], values' = [Node [Tag ''t''] [] (Int' 5)]\<rparr>
   \<and> Document_getitem \<lparr>prolog = [], values' = [Node [Tag ''t''] [] (Int' 5)]\<rparr> (IntKey 0)
     = Inr (Node [Tag ''t''] [] (Int' 5))"
  using Node_stored_as_given [of "[Node_new Null]" 0 "Node [Tag ''t''] [] (Int' 5)"
      "[Node [Tag ''t''] [] (Int' 5)]" "[]" "''k''"
      "\<lparr>prolog = [], values' = [Node_new Null]\<rparr>" 0
      "\<lparr>prolog = [], values' = [Node [Tag ''t''] [] (Int' 5)]\<rparr>" "Null"]
  by (simp add: Array_setitem_def list_setitem_def list_index_def)

subsection \<open>Container writes: what stays as it was\<close>





end
